theory Spec2Isabelle
  imports Main "HOL-Library.Word" "HOL-Library.Multiset" "HOL-Library.AList"
begin

section \<open>Runtime security probe: process cache entries, activity dumps, event handling\<close>

text \<open>
  A shallow embedding of the parts of the runtime security probe that the
  verified properties are about: the reference counter of a process cache entry
  (package \<open>model\<close>), the activity dump tree with its file trie
  (\<open>activity_dump.go\<close>) and the event handler and discarder flush of the probe
  (\<open>probe.go\<close>).
\<close>

type_synonym u32 = "32 word"
type_synonym u64 = "64 word"
type_synonym i64 = "64 word"

subsection \<open>Process cache entries: \<open>Retain\<close> and \<open>Release\<close>\<close>

text \<open>
  \<open>ProcessCacheEntry\<close> carries an unsigned 64-bit counter \<open>refCount\<close> and two
  optional callbacks, \<open>onRelease\<close> (set by \<open>NewProcessCacheEntry\<close>) and
  \<open>releaseCb\<close> (set by \<open>SetReleaseCallback\<close>). The callbacks are opaque
  functions of the caller; the model records whether each one is non-nil and
  logs every call of one in a trace, oldest call first.
\<close>

datatype callback = OnRelease | ReleaseCb

record RefCounted =
  refCount :: u64
  onRelease :: bool
  releaseCb :: bool
  fired :: "callback list"

definition NewProcessCacheEntry :: "bool \<Rightarrow> RefCounted" where
  "NewProcessCacheEntry cb = \<lparr>refCount = 0, onRelease = cb, releaseCb = False, fired = []\<rparr>"

definition Retain :: "RefCounted \<Rightarrow> RefCounted" where
  "Retain pc = pc\<lparr>refCount := refCount pc + 1\<rparr>"

definition SetReleaseCallback :: "RefCounted \<Rightarrow> RefCounted" where
  "SetReleaseCallback pc = pc\<lparr>releaseCb := True\<rparr>"

definition Release :: "RefCounted \<Rightarrow> RefCounted" where
  "Release pc =
     (let pc1 = pc\<lparr>refCount := refCount pc - 1\<rparr> in
      if refCount pc1 > 0 then pc1
      else
        let pc2 = (if onRelease pc1 then pc1\<lparr>fired := fired pc1 @ [OnRelease]\<rparr> else pc1) in
        (if releaseCb pc2 then pc2\<lparr>fired := fired pc2 @ [ReleaseCb]\<rparr> else pc2))"

text \<open>Calling an operation \<open>n\<close> times in a row.\<close>

definition times :: "nat \<Rightarrow> ('a \<Rightarrow> 'a) \<Rightarrow> 'a \<Rightarrow> 'a" where
  "times n f = f ^^ n"

subsection \<open>Event types and process data\<close>

text \<open>
  The event kinds the handler switches on. The constants are declared in a file of
  package \<open>model\<close> that is not among the sources; the names are the ones
  \<open>probe.go\<close> uses. \<open>OtherEventType\<close> stands for every other value of the
  numeric type (custom events, \<open>MaxEventType\<close> and beyond).
\<close>

datatype EventType =
    UnknownEventType
  | FileOpenEventType | FileMkdirEventType | FileLinkEventType | FileRenameEventType
  | FileUnlinkEventType | FileRmdirEventType | FileChmodEventType | FileChownEventType
  | FileUtimesEventType | FileSetXAttrEventType | FileRemoveXAttrEventType
  | FileMountEventType | FileUmountEventType
  | ForkEventType | ExecEventType | ExitEventType
  | InvalidateDentryEventType | SetuidEventType | SetgidEventType | CapsetEventType
  | ArgsEnvsEventType | MountReleasedEventType
  | SELinuxEventType | BPFEventType | PTraceEventType | MMapEventType | MProtectEventType
  | LoadModuleEventType | UnloadModuleEventType | SignalEventType | SpliceEventType
  | OtherEventType

text \<open>
  \<open>time.Time\<close> values are instants counted in nanoseconds from Go's zero time, so
  \<open>IsZero\<close> is equality with 0. Kernel timestamps are signed 64-bit numbers that
  the modelled code only compares; they are integers here.
\<close>

type_synonym Time = int

definition IsZero :: "Time \<Rightarrow> bool" where
  "IsZero t = (t = 0)"

record Credentials =
  UID :: u32
  GID :: u32
  User :: string
  Group :: string
  EUID :: u32
  EGID :: u32
  EUser :: string
  EGroup :: string
  FSUID :: u32
  FSGID :: u32
  FSUser :: string
  FSGroup :: string
  CapEffective :: u64
  CapPermitted :: u64

text \<open>
  The fields of \<open>model.Process\<close> that the activity dump reads. \<open>ArgsID\<close>
  identifies the shared argument blob from which the process resolver rebuilds argv.
\<close>

record Process =
  Pid :: u32
  Tid :: u32
  PPid :: u32
  Cookie :: u32
  PathnameStr :: string
  ContainerID :: string
  Comm :: string
  Creds :: Credentials
  ArgsID :: u32

text \<open>
  A process cache entry with its ancestry. \<open>GetNextAncestorNoFork\<close> is not among
  the sources.
  Modelled from the spec: it returns the nearest ancestor that is the product of an
  exec, skipping fork-only hops, or nil when there is none. The entry of the model
  carries that result as its second component, so the chain of the datatype is the
  chain of exec ancestors (finite and free of cycles).
\<close>

datatype ProcessCacheEntry =
  ProcessCacheEntry (entry_Process: Process) (GetNextAncestorNoFork: "ProcessCacheEntry option")

text \<open>
  The resolvers the dump calls into. \<open>ProcessResolver.GetProcessArgv\<close> is not
  among the sources: it is a parameter, an arbitrary function from a process to its
  argv.
\<close>

record Resolvers =
  GetProcessArgv :: "Process \<Rightarrow> string list"

datatype NodeGenerationType = Runtime | Snapshot

subsection \<open>The file trie of a process node\<close>

record FileEvent =
  file_PathnameStr :: string
  file_BasenameStr :: string
  file_MountID :: u32
  file_Inode :: u64
  file_UID :: u32
  file_GID :: u32
  file_Mode :: "16 word"

record OpenNode =
  open_Retval :: i64
  open_Flags :: u32
  open_Mode :: u32

text \<open>
  What the trie reads of an event: its type, its resolved timestamp and, for an open,
  the syscall return value, the flags and the mode.
\<close>

record Event =
  ev_Type :: EventType
  ev_Timestamp :: Time
  ev_Open_Retval :: i64
  ev_Open_Flags :: u32
  ev_Open_Mode :: u32

text \<open>
  A Go map from path segment to child node is an association list with one entry per
  key: \<open>map_of\<close> is the lookup, \<open>AList.update\<close> the store (it replaces the
  value of a key in place and appends a new key). The random node id plays no role
  in any operation modelled and is left out.
\<close>

datatype FileActivityNode =
  FileActivityNode
    (fan_Name: string)
    (fan_File: "FileEvent option")
    (fan_GenerationType: NodeGenerationType)
    (fan_FirstSeen: Time)
    (fan_Open: "OpenNode option")
    (fan_Children: "(string \<times> FileActivityNode) list")

text \<open>
  \<open>extractFirstParent\<close>: the first segment of a path and the index at which the
  rest starts. After an optional leading slash is dropped, the loop returns
  \<open>(path[0:i], i + add)\<close> at the first slash \<open>i\<close> and \<open>(path, len(path) + add)\<close>
  when there is none: in both cases the longest slash-free prefix and its length.
\<close>

definition extractFirstParent :: "string \<Rightarrow> string \<times> nat" where
  "extractFirstParent path =
     (if length path = 0 then ([], 0)
      else if path = ''/'' then ([], 0)
      else
        let (path', add) = (if hd path = CHR ''/'' then (tl path, 1) else (path, 0));
            seg = takeWhile (\<lambda>c. c \<noteq> CHR ''/'') path'
        in (seg, length seg + add))"

definition enrichFromEvent :: "FileActivityNode \<Rightarrow> Event option \<Rightarrow> FileActivityNode" where
  "enrichFromEvent fan event =
     (case event of
        None \<Rightarrow> fan
      | Some ev \<Rightarrow>
          (case fan of FileActivityNode name file gen seen opn children \<Rightarrow>
             let seen' = (if IsZero seen then ev_Timestamp ev else seen);
                 opn' = (if ev_Type ev = FileOpenEventType
                         then Some \<lparr>open_Retval = ev_Open_Retval ev, open_Flags = ev_Open_Flags ev,
                                     open_Mode = ev_Open_Mode ev\<rparr>
                         else opn)
             in FileActivityNode name file gen seen' opn' children))"

definition NewFileActivityNode ::
  "FileEvent option \<Rightarrow> Event option \<Rightarrow> string \<Rightarrow> NodeGenerationType \<Rightarrow> FileActivityNode" where
  "NewFileActivityNode fileEvent event name generationType =
     enrichFromEvent (FileActivityNode name fileEvent generationType 0 None []) event"

text \<open>
  \<open>FileActivityNode.InsertFileEvent\<close>. The node is mutated in place in the source;
  the model returns the new node next to the boolean. The recursion follows the
  remaining path, which gets shorter with every segment.
\<close>

function fan_InsertFileEvent ::
  "FileActivityNode \<Rightarrow> FileEvent \<Rightarrow> Event \<Rightarrow> string \<Rightarrow> NodeGenerationType \<Rightarrow>
     FileActivityNode \<times> bool" where
  "fan_InsertFileEvent fan fileEvent event remainingPath generationType =
     (let (parent, nextParentIndex) = extractFirstParent remainingPath in
      if nextParentIndex = 0 then (enrichFromEvent fan (Some event), False)
      else
        (case map_of (fan_Children fan) parent of
           Some child \<Rightarrow>
             let (child', r) = fan_InsertFileEvent child fileEvent event
                                 (drop nextParentIndex remainingPath) generationType
             in (case fan of FileActivityNode name file gen seen opn children \<Rightarrow>
                   (FileActivityNode name file gen seen opn (AList.update parent child' children), r))
         | None \<Rightarrow>
             if length remainingPath \<le> nextParentIndex + 1 then
               (case fan of FileActivityNode name file gen seen opn children \<Rightarrow>
                  (FileActivityNode name file gen seen opn
                     (AList.update parent
                        (NewFileActivityNode (Some fileEvent) (Some event) parent generationType)
                        children), True))
             else
               let child = NewFileActivityNode None None parent generationType;
                   (child', r) = fan_InsertFileEvent child fileEvent event
                                   (drop nextParentIndex remainingPath) generationType
               in (case fan of FileActivityNode name file gen seen opn children \<Rightarrow>
                     (FileActivityNode name file gen seen opn (AList.update parent child' children),
                      True))))"
  by pat_completeness auto
termination
proof (relation "measure (\<lambda>(fan, fileEvent, event, remainingPath, generationType). length remainingPath)")
  show "wf (measure (\<lambda>(fan, fileEvent, event, remainingPath, generationType). length remainingPath))"
    by simp
next
  fix fan :: FileActivityNode and fileEvent :: FileEvent and event :: Event
    and remainingPath :: string and generationType :: NodeGenerationType
    and x :: "string \<times> nat" and parent nextParentIndex child
  assume "x = extractFirstParent remainingPath" "(parent, nextParentIndex) = x"
    "nextParentIndex \<noteq> 0"
  then have "remainingPath \<noteq> []"
    by (auto simp: extractFirstParent_def)
  with \<open>nextParentIndex \<noteq> 0\<close>
  show "((child, fileEvent, event, drop nextParentIndex remainingPath, generationType),
         (fan, fileEvent, event, remainingPath, generationType))
        \<in> measure (\<lambda>(fan, fileEvent, event, remainingPath, generationType). length remainingPath)"
    by simp
next
  fix fan :: FileActivityNode and fileEvent :: FileEvent and event :: Event
    and remainingPath :: string and generationType :: NodeGenerationType
    and x :: "string \<times> nat" and parent nextParentIndex child
  assume "x = extractFirstParent remainingPath" "(parent, nextParentIndex) = x"
    "nextParentIndex \<noteq> 0"
  then have "remainingPath \<noteq> []"
    by (auto simp: extractFirstParent_def)
  with \<open>nextParentIndex \<noteq> 0\<close>
  show "((child, fileEvent, event, drop nextParentIndex remainingPath, generationType),
         (fan, fileEvent, event, remainingPath, generationType))
        \<in> measure (\<lambda>(fan, fileEvent, event, remainingPath, generationType). length remainingPath)"
    by simp
qed

text \<open>
  Reading a trie. \<open>segments\<close> is the sequence of keys an insertion of a path
  walks: it repeats \<open>extractFirstParent\<close> on what remains of the path until the
  index returned is 0. \<open>files_paths\<close> lists the key sequence of every node of a
  trie, \<open>files_lookup\<close> finds the node at a key sequence, and \<open>wf_files\<close> says
  that no map of the trie has two entries for one key, which holds of every Go map.
\<close>

function segments :: "string \<Rightarrow> string list" where
  "segments path =
     (let (parent, nextParentIndex) = extractFirstParent path in
      if nextParentIndex = 0 then [] else parent # segments (drop nextParentIndex path))"
  by pat_completeness auto
termination
proof (relation "measure length")
  show "wf (measure length)"
    by simp
next
  fix path :: string and x :: "string \<times> nat" and parent nextParentIndex
  assume "x = extractFirstParent path" "(parent, nextParentIndex) = x" "nextParentIndex \<noteq> 0"
  then have "path \<noteq> []"
    by (auto simp: extractFirstParent_def)
  with \<open>nextParentIndex \<noteq> 0\<close> show "(drop nextParentIndex path, path) \<in> measure length"
    by simp
qed

primrec fan_paths :: "FileActivityNode \<Rightarrow> string list list" where
  "fan_paths (FileActivityNode name file gen seen opn children) =
     concat (map (\<lambda>(k, ps). [k] # map ((#) k) ps) (map (map_prod id fan_paths) children))"

definition files_paths :: "(string \<times> FileActivityNode) list \<Rightarrow> string list list" where
  "files_paths files = concat (map (\<lambda>(k, c). [k] # map ((#) k) (fan_paths c)) files)"

primrec wf_fan :: "FileActivityNode \<Rightarrow> bool" where
  "wf_fan (FileActivityNode name file gen seen opn children) =
     (distinct (map fst children) \<and> list_all snd (map (map_prod id wf_fan) children))"

definition wf_files :: "(string \<times> FileActivityNode) list \<Rightarrow> bool" where
  "wf_files files = (distinct (map fst files) \<and> list_all (\<lambda>(k, c). wf_fan c) files)"

fun files_lookup :: "(string \<times> FileActivityNode) list \<Rightarrow> string list \<Rightarrow> FileActivityNode option" where
  "files_lookup files [] = None"
| "files_lookup files (k # ks) =
     (case map_of files k of
        None \<Rightarrow> None
      | Some c \<Rightarrow> if ks = [] then Some c else files_lookup (fan_Children c) ks)"

definition OpenNode_of :: "Event \<Rightarrow> OpenNode" where
  "OpenNode_of ev =
     \<lparr>open_Retval = ev_Open_Retval ev, open_Flags = ev_Open_Flags ev, open_Mode = ev_Open_Mode ev\<rparr>"

subsection \<open>Process nodes and the activity dump\<close>

text \<open>
  Process nodes are shared through pointers: the roots of the dump, the children
  lists and the cookie index all point at the same nodes, and a node is changed in
  place. The model keeps the nodes in a store indexed by addresses; a pointer is an
  address and nil is \<open>None\<close>. \<open>next_addr\<close> is the address of the next node
  allocated.
\<close>

type_synonym addr = nat

record ProcessActivityNode =
  pan_Process :: Process
  pan_GenerationType :: NodeGenerationType
  pan_Files :: "(string \<times> FileActivityNode) list"
  pan_Children :: "addr list"

text \<open>
  \<open>ResolveFilePath\<close> is not among the sources.
  Modelled from the spec: the path of a file event is a lazily resolved field that is
  computed once and cached on the event, so the call returns the file event's
  \<open>PathnameStr\<close>, which the model takes as already resolved.
\<close>

definition ResolveFilePath :: "Event \<Rightarrow> FileEvent \<Rightarrow> string" where
  "ResolveFilePath event fileEvent = file_PathnameStr fileEvent"

definition pan_InsertFileEvent ::
  "ProcessActivityNode \<Rightarrow> FileEvent \<Rightarrow> Event \<Rightarrow> NodeGenerationType \<Rightarrow>
     ProcessActivityNode \<times> bool" where
  "pan_InsertFileEvent pan fileEvent event generationType =
     (let (parent, nextParentIndex) = extractFirstParent (ResolveFilePath event fileEvent) in
      if nextParentIndex = 0 then (pan, False)
      else
        (case map_of (pan_Files pan) parent of
           Some child \<Rightarrow>
             let (child', r) = fan_InsertFileEvent child fileEvent event
                                 (drop nextParentIndex (file_PathnameStr fileEvent)) generationType
             in (pan\<lparr>pan_Files := AList.update parent child' (pan_Files pan)\<rparr>, r)
         | None \<Rightarrow>
             if length (file_PathnameStr fileEvent) \<le> nextParentIndex + 1 then
               (pan\<lparr>pan_Files := AList.update parent
                    (NewFileActivityNode (Some fileEvent) (Some event) parent generationType)
                    (pan_Files pan)\<rparr>, True)
             else
               let child = NewFileActivityNode None None parent generationType;
                   (child', r) = fan_InsertFileEvent child fileEvent event
                                   (drop nextParentIndex (file_PathnameStr fileEvent)) generationType
               in (pan\<lparr>pan_Files := AList.update parent child' (pan_Files pan)\<rparr>, True)))"

text \<open>
  \<open>ProcessActivityNode.Matches\<close>. The two loops over the argv lists are
  \<open>args_found\<close> (the inner loop, which stops at the first equal argument) and
  \<open>args_all_found\<close> (the outer loop, which returns false at the first argument
  of the node that the inner loop does not find).
\<close>

fun args_found :: "string \<Rightarrow> string list \<Rightarrow> bool" where
  "args_found arg1 [] = False"
| "args_found arg1 (arg2 # entryArgs) = (if arg1 = arg2 then True else args_found arg1 entryArgs)"

fun args_all_found :: "string list \<Rightarrow> string list \<Rightarrow> bool" where
  "args_all_found [] entryArgs = True"
| "args_all_found (arg1 # panArgs) entryArgs =
     (if \<not> args_found arg1 entryArgs then False else args_all_found panArgs entryArgs)"

definition pan_Matches ::
  "ProcessActivityNode \<Rightarrow> ProcessCacheEntry \<Rightarrow> bool \<Rightarrow> Resolvers \<Rightarrow> bool" where
  "pan_Matches pan entry matchArgs resolvers =
     (if Comm (pan_Process pan) = Comm (entry_Process entry) \<and>
         PathnameStr (pan_Process pan) = PathnameStr (entry_Process entry) \<and>
         Creds (pan_Process pan) = Creds (entry_Process entry)
      then
        (if matchArgs then
           let panArgs = GetProcessArgv resolvers (pan_Process pan);
               entryArgs = GetProcessArgv resolvers (entry_Process entry)
           in if length panArgs \<noteq> length entryArgs then False
              else args_all_found panArgs entryArgs
         else True)
      else False)"

text \<open>
  The activity dump. The counters are maps from event type to an unsigned 64-bit
  counter. \<open>tracedPIDs\<close> is the kernel map of traced pids of the dump manager;
  the source discards the errors of its lookups and stores. \<open>monotonicTimeout\<close> is
  what the time resolver (not among the sources) computes for the end of the dump.
\<close>

record ActivityDump =
  heap :: "addr \<Rightarrow> ProcessActivityNode"
  next_addr :: addr
  ProcessActivityTree :: "addr list"
  CookiesNode :: "u32 \<rightharpoonup> addr"
  DifferentiateArgs :: bool
  dump_Comm :: string
  dump_ContainerID :: string
  addedRuntimeCount :: "EventType \<Rightarrow> u64"
  addedSnapshotCount :: "EventType \<Rightarrow> u64"
  timeoutRaw :: int
  monotonicTimeout :: int
  tracedPIDs :: "u32 \<rightharpoonup> int"

definition CommMatches :: "ActivityDump \<Rightarrow> string \<Rightarrow> bool" where
  "CommMatches ad comm = (dump_Comm ad = comm)"

definition ContainerIDMatches :: "ActivityDump \<Rightarrow> string \<Rightarrow> bool" where
  "ContainerIDMatches ad containerID = (dump_ContainerID ad = containerID)"

definition ActivityDump_Matches :: "ActivityDump \<Rightarrow> ProcessCacheEntry option \<Rightarrow> bool" where
  "ActivityDump_Matches ad entry =
     (case entry of
        None \<Rightarrow> False
      | Some e \<Rightarrow>
          if length (dump_ContainerID ad) > 0 \<and>
             \<not> ContainerIDMatches ad (ContainerID (entry_Process e)) then False
          else if length (dump_Comm ad) > 0 \<and> \<not> CommMatches ad (Comm (entry_Process e)) then False
          else True)"

definition GetTimeoutRawTimestamp :: "ActivityDump \<Rightarrow> int \<times> ActivityDump" where
  "GetTimeoutRawTimestamp ad =
     (let ad' = (if timeoutRaw ad = 0 then ad\<lparr>timeoutRaw := monotonicTimeout ad\<rparr> else ad)
      in (timeoutRaw ad', ad'))"

definition UpdateTracedPidTimeout :: "ActivityDump \<Rightarrow> u32 \<Rightarrow> ActivityDump" where
  "UpdateTracedPidTimeout ad pid =
     (let timeout = (case tracedPIDs ad pid of Some t \<Rightarrow> t | None \<Rightarrow> 0);
          (raw, ad1) = GetTimeoutRawTimestamp ad
      in if timeout < raw then
           let (raw', ad2) = GetTimeoutRawTimestamp ad1
           in ad2\<lparr>tracedPIDs := (tracedPIDs ad2)(pid \<mapsto> raw')\<rparr>
         else ad1)"

text \<open>
  \<open>NewProcessActivityNode\<close> allocates a node that copies the process of the entry.
  The node id is random and \<open>retain\<close> only increments the reference counters of the
  argument and environment cache entries, which live outside the dump: neither is
  part of the state modelled.
\<close>

definition NewProcessActivityNode ::
  "ActivityDump \<Rightarrow> ProcessCacheEntry \<Rightarrow> NodeGenerationType \<Rightarrow> addr \<times> ActivityDump" where
  "NewProcessActivityNode ad entry generationType =
     (let node = next_addr ad;
          pan = \<lparr>pan_Process = entry_Process entry, pan_GenerationType = generationType,
                 pan_Files = [], pan_Children = []\<rparr>
      in (node, ad\<lparr>heap := (heap ad)(node := pan), next_addr := Suc node\<rparr>))"

text \<open>
  The end of \<open>FindOrCreateProcessActivityNode\<close>, reached with a freshly created
  node: the cookie shortcut, the counter of new entries and the traced pid.
\<close>

definition registerNewNode ::
  "ActivityDump \<Rightarrow> ProcessCacheEntry \<Rightarrow> addr \<Rightarrow> NodeGenerationType \<Rightarrow> ActivityDump" where
  "registerNewNode ad entry node generationType =
     (let ad1 = (if Cookie (entry_Process entry) > 0
                 then ad\<lparr>CookiesNode := (CookiesNode ad)(Cookie (entry_Process entry) \<mapsto> node)\<rparr>
                 else ad);
          ad2 = (case generationType of
                   Runtime \<Rightarrow>
                     ad1\<lparr>addedRuntimeCount := (addedRuntimeCount ad1)
                            (ExecEventType := addedRuntimeCount ad1 ExecEventType + 1)\<rparr>
                 | Snapshot \<Rightarrow>
                     ad1\<lparr>addedSnapshotCount := (addedSnapshotCount ad1)
                            (ExecEventType := addedSnapshotCount ad1 ExecEventType + 1)\<rparr>)
      in UpdateTracedPidTimeout ad2 (Pid (entry_Process entry)))"

fun FindOrCreateProcessActivityNode ::
  "Resolvers \<Rightarrow> ActivityDump \<Rightarrow> ProcessCacheEntry option \<Rightarrow> NodeGenerationType \<Rightarrow>
     addr option \<times> ActivityDump" where
  "FindOrCreateProcessActivityNode resolvers ad None generationType = (None, ad)"
| "FindOrCreateProcessActivityNode resolvers ad (Some (ProcessCacheEntry proc ancestor)) generationType =
     (let entry = ProcessCacheEntry proc ancestor in
      case (if Cookie proc > 0 then CookiesNode ad (Cookie proc) else None) of
        Some node \<Rightarrow> (Some node, ad)
      | None \<Rightarrow>
          (case FindOrCreateProcessActivityNode resolvers ad ancestor Snapshot of
             (None, ad1) \<Rightarrow>
               if \<not> ActivityDump_Matches ad1 (Some entry) then (None, ad1)
               else
                 (case find (\<lambda>root. pan_Matches (heap ad1 root) entry (DifferentiateArgs ad1) resolvers)
                         (ProcessActivityTree ad1) of
                    Some root \<Rightarrow> (Some root, ad1)
                  | None \<Rightarrow>
                      let (node, ad2) = NewProcessActivityNode ad1 entry generationType;
                          ad3 = ad2\<lparr>ProcessActivityTree := ProcessActivityTree ad2 @ [node]\<rparr>
                      in (Some node, registerNewNode ad3 entry node generationType))
           | (Some parentNode, ad1) \<Rightarrow>
               (case find (\<lambda>child. pan_Matches (heap ad1 child) entry (DifferentiateArgs ad1) resolvers)
                       (pan_Children (heap ad1 parentNode)) of
                  Some child \<Rightarrow> (Some child, ad1)
                | None \<Rightarrow>
                    let (node, ad2) = NewProcessActivityNode ad1 entry generationType;
                        parent = heap ad2 parentNode;
                        ad3 = ad2\<lparr>heap := (heap ad2)
                                (parentNode := parent\<lparr>pan_Children := pan_Children parent @ [node]\<rparr>)\<rparr>
                    in (Some node, registerNewNode ad3 entry node generationType))))"

subsection \<open>The probe: event handling\<close>

text \<open>
  The resolvers, the monitor, the rule-evaluation handler and the binary decoders are
  collaborators of \<open>probe.go\<close> that are not among the sources. The model of
  \<open>handleEvent\<close> records every call to one of them as an action, in the order in
  which the calls are made; the answers it needs from them are parameters
  (\<open>HandlerEnv\<close>), and the result of decoding the raw record is the input
  (\<open>RawRecord\<close>).
\<close>

datatype DecodeTarget = Header | Contexts | Payload EventType

datatype Action =
    Unmarshal DecodeTarget
  | Errorf string
  | Warnf string
  | Debugf string
  | Tracef string
  | Sleep int
  | CountEvent EventType
  | DentryResolver_DelCacheEntry u32 u64
  | DentryResolver_DelCacheEntries u32
  | InodeDiscarders_setRevision u32 u32
  | MountResolver_Delete u32
  | MountResolver_Insert u32
  | SetMountPoint
  | SetMountRoot
  | ProcessResolver_UpdateArgsEnvs
  | ProcessResolver_ApplyBootTime
  | ProcessResolver_AddForkEntry u32
  | ProcessResolver_ResolveNewProcessCacheEntryContext
  | ProcessResolver_AddExecEntry u32
  | ProcessResolver_UpdateUID u32
  | ProcessResolver_UpdateGID u32
  | ProcessResolver_UpdateCapset u32
  | ProcessResolver_Resolve u32
  | ProcessResolver_DeleteEntry u32
  | ProcessResolver_DequeueExited
  | ResolveProcessCacheEntry
  | ResolveEventTimestamp
  | Handler_HandleEvent EventType
  | Monitor_ProcessEvent EventType

text \<open>
  The fields of the decoded records that the handler reads. \<open>ctx_Pid\<close> and
  \<open>ctx_PPid\<close> are those of the process context. In the payload,
  \<open>d_MountID\<close> and \<open>d_Inode\<close> are the mount id and inode that the handler of
  the event type reads: \<open>File\<close> for rmdir and unlink, \<open>New\<close> for rename,
  \<open>Source\<close> for link, the event's own for mount, mount-released and
  invalidate-dentry; \<open>d_Pid\<close> and \<open>d_PPid\<close> are those of the process cache
  entry of a fork, and \<open>d_Pid\<close> the target pid of a ptrace or a signal.
\<close>

record DecodedContexts =
  ctx_Pid :: u32
  ctx_PPid :: u32

record DecodedPayload =
  d_Retval :: i64
  d_MountID :: u32
  d_Inode :: u64
  d_DiscarderRevision :: u32
  d_Pid :: u32
  d_PPid :: u32

text \<open>Each decoder either fails (\<open>None\<close>) or yields the decoded fields.\<close>

record RawRecord =
  raw_Header :: "EventType option"
  raw_Contexts :: "DecodedContexts option"
  raw_Payload :: "DecodedPayload option"

record HandlerEnv =
  handler_set :: bool
  IsKThread :: "u32 \<Rightarrow> u32 \<Rightarrow> bool"
  IsOverlayFS :: "u32 \<Rightarrow> bool"
  MountResolver_Delete_fails :: "u32 \<Rightarrow> bool"
  MountResolver_Insert_fails :: "u32 \<Rightarrow> bool"
  ResolveNewProcessCacheEntryContext_fails :: bool

definition invalidateDentry :: "u32 \<Rightarrow> u64 \<Rightarrow> Action list" where
  "invalidateDentry mountID inode =
     (if mountID = 0 \<or> inode = 0 then [Tracef ''invalid mount_id/inode tuple %d:%d'']
      else [Tracef ''remove dentry cache entry for inode %d'',
            DentryResolver_DelCacheEntry mountID inode])"

definition DispatchEvent :: "HandlerEnv \<Rightarrow> EventType \<Rightarrow> Action list" where
  "DispatchEvent env eventType =
     [Tracef ''Dispatching event %s''] @
     (if handler_set env then [Handler_HandleEvent eventType] else []) @
     [Monitor_ProcessEvent eventType]"

text \<open>
  The second switch of \<open>handleEvent\<close> either returns from the function
  (\<open>Returned\<close>) or falls through to the dispatch (\<open>Continued\<close>) with the deferred
  calls registered so far, oldest first. The arguments of a deferred call are
  evaluated when the \<open>defer\<close> statement runs, the call itself when the function
  returns, the last one registered first.
\<close>

datatype Flow = Returned "Action list" | Continued "Action list" "Action list list"

definition decodeError :: "EventType \<Rightarrow> string \<Rightarrow> Flow" where
  "decodeError eventType msg = Returned [Unmarshal (Payload eventType), Errorf msg]"

definition decodeOnly :: "EventType \<Rightarrow> RawRecord \<Rightarrow> string \<Rightarrow> Flow" where
  "decodeOnly eventType raw msg =
     (case raw_Payload raw of
        None \<Rightarrow> decodeError eventType msg
      | Some d \<Rightarrow> Continued [Unmarshal (Payload eventType)] [])"

definition decodeThenInvalidate :: "EventType \<Rightarrow> RawRecord \<Rightarrow> string \<Rightarrow> Flow" where
  "decodeThenInvalidate eventType raw msg =
     (case raw_Payload raw of
        None \<Rightarrow> decodeError eventType msg
      | Some d \<Rightarrow>
          Continued [Unmarshal (Payload eventType)]
            (if 0 \<le> sint (d_Retval d) then [invalidateDentry (d_MountID d) (d_Inode d)] else []))"

definition decodeThenResolve :: "EventType \<Rightarrow> RawRecord \<Rightarrow> string \<Rightarrow> Flow" where
  "decodeThenResolve eventType raw msg =
     (case raw_Payload raw of
        None \<Rightarrow> decodeError eventType msg
      | Some d \<Rightarrow> Continued [Unmarshal (Payload eventType), ProcessResolver_Resolve (d_Pid d)] [])"

definition decodeThenDefer :: "EventType \<Rightarrow> RawRecord \<Rightarrow> string \<Rightarrow> Action \<Rightarrow> Flow" where
  "decodeThenDefer eventType raw msg deferred =
     (case raw_Payload raw of
        None \<Rightarrow> decodeError eventType msg
      | Some d \<Rightarrow> Continued [Unmarshal (Payload eventType)] [[deferred]])"

fun switchEventType :: "HandlerEnv \<Rightarrow> EventType \<Rightarrow> DecodedContexts \<Rightarrow> RawRecord \<Rightarrow> Flow" where
  "switchEventType env FileMountEventType ctx raw =
     (case raw_Payload raw of
        None \<Rightarrow> decodeError FileMountEventType ''failed to decode mount event''
      | Some d \<Rightarrow>
          Continued
            ([Unmarshal (Payload FileMountEventType), SetMountPoint, SetMountRoot,
              MountResolver_Insert (d_MountID d)] @
             (if MountResolver_Insert_fails env (d_MountID d)
              then [Errorf ''failed to insert mount event''] else []) @
             [DentryResolver_DelCacheEntries (d_MountID d)]) [])"
| "switchEventType env FileUmountEventType ctx raw =
     decodeOnly FileUmountEventType raw ''failed to decode umount event''"
| "switchEventType env FileOpenEventType ctx raw =
     decodeOnly FileOpenEventType raw ''failed to decode open event''"
| "switchEventType env FileMkdirEventType ctx raw =
     decodeOnly FileMkdirEventType raw ''failed to decode mkdir event''"
| "switchEventType env FileRmdirEventType ctx raw =
     decodeThenInvalidate FileRmdirEventType raw ''failed to decode rmdir event''"
| "switchEventType env FileUnlinkEventType ctx raw =
     decodeThenInvalidate FileUnlinkEventType raw ''failed to decode unlink event''"
| "switchEventType env FileRenameEventType ctx raw =
     decodeThenInvalidate FileRenameEventType raw ''failed to decode rename event''"
| "switchEventType env FileChmodEventType ctx raw =
     decodeOnly FileChmodEventType raw ''failed to decode chmod event''"
| "switchEventType env FileChownEventType ctx raw =
     decodeOnly FileChownEventType raw ''failed to decode chown event''"
| "switchEventType env FileUtimesEventType ctx raw =
     decodeOnly FileUtimesEventType raw ''failed to decode utime event''"
| "switchEventType env FileLinkEventType ctx raw =
     decodeThenInvalidate FileLinkEventType raw ''failed to decode link event''"
| "switchEventType env FileSetXAttrEventType ctx raw =
     decodeOnly FileSetXAttrEventType raw ''failed to decode setxattr event''"
| "switchEventType env FileRemoveXAttrEventType ctx raw =
     decodeOnly FileRemoveXAttrEventType raw ''failed to decode removexattr event''"
| "switchEventType env ForkEventType ctx raw =
     (case raw_Payload raw of
        None \<Rightarrow> decodeError ForkEventType ''failed to decode fork event''
      | Some d \<Rightarrow>
          if IsKThread env (d_PPid d) (d_Pid d) then Returned [Unmarshal (Payload ForkEventType)]
          else Continued [Unmarshal (Payload ForkEventType), ProcessResolver_ApplyBootTime,
                          ProcessResolver_AddForkEntry (ctx_Pid ctx)] [])"
| "switchEventType env ExecEventType ctx raw =
     (case raw_Payload raw of
        None \<Rightarrow> decodeError ExecEventType ''failed to decode exec event''
      | Some d \<Rightarrow>
          Continued
            ([Unmarshal (Payload ExecEventType), ProcessResolver_ResolveNewProcessCacheEntryContext] @
             (if ResolveNewProcessCacheEntryContext_fails env
              then [Debugf ''failed to resolve new process cache entry context''] else []) @
             [ProcessResolver_AddExecEntry (ctx_Pid ctx)]) [])"
| "switchEventType env ExitEventType ctx raw = Continued [] []"
| "switchEventType env SetuidEventType ctx raw =
     decodeThenDefer SetuidEventType raw ''failed to decode setuid event''
       (ProcessResolver_UpdateUID (ctx_Pid ctx))"
| "switchEventType env SetgidEventType ctx raw =
     decodeThenDefer SetgidEventType raw ''failed to decode setgid event''
       (ProcessResolver_UpdateGID (ctx_Pid ctx))"
| "switchEventType env CapsetEventType ctx raw =
     decodeThenDefer CapsetEventType raw ''failed to decode capset event''
       (ProcessResolver_UpdateCapset (ctx_Pid ctx))"
| "switchEventType env SELinuxEventType ctx raw =
     decodeOnly SELinuxEventType raw ''failed to decode selinux event''"
| "switchEventType env BPFEventType ctx raw =
     decodeOnly BPFEventType raw ''failed to decode bpf event''"
| "switchEventType env PTraceEventType ctx raw =
     decodeThenResolve PTraceEventType raw ''failed to decode ptrace event''"
| "switchEventType env MMapEventType ctx raw =
     decodeOnly MMapEventType raw ''failed to decode mmap event''"
| "switchEventType env MProtectEventType ctx raw =
     decodeOnly MProtectEventType raw ''failed to decode mprotect event''"
| "switchEventType env LoadModuleEventType ctx raw =
     decodeOnly LoadModuleEventType raw ''failed to decode load_module event''"
| "switchEventType env UnloadModuleEventType ctx raw =
     (case raw_Payload raw of
        None \<Rightarrow> Continued [Unmarshal (Payload UnloadModuleEventType),
                            Errorf ''failed to decode unload_module event''] []
      | Some d \<Rightarrow> Continued [Unmarshal (Payload UnloadModuleEventType)] [])"
| "switchEventType env SignalEventType ctx raw =
     decodeThenResolve SignalEventType raw ''failed to decode signal event''"
| "switchEventType env SpliceEventType ctx raw =
     decodeOnly SpliceEventType raw ''failed to decode splice event''"
| "switchEventType env eventType ctx raw = Returned [Errorf ''unsupported event type %d'']"

text \<open>Deferred calls run when the function returns, the last one registered first.\<close>

definition runDeferred :: "Action list list \<Rightarrow> Action list" where
  "runDeferred deferred = concat (rev deferred)"

text \<open>
  The end of \<open>handleEvent\<close>, after the second switch: the event context, the
  dispatch and the flush of exited processes, then the deferred calls.
\<close>

definition resolveAndDispatch ::
  "HandlerEnv \<Rightarrow> EventType \<Rightarrow> DecodedContexts \<Rightarrow> Action list list \<Rightarrow> Action list" where
  "resolveAndDispatch env eventType ctx deferred =
     (if eventType \<noteq> ExitEventType then
        [ResolveProcessCacheEntry] @ DispatchEvent env eventType @ [ProcessResolver_DequeueExited] @
        runDeferred deferred
      else if IsKThread env (ctx_PPid ctx) (ctx_Pid ctx) then runDeferred deferred
      else
        [ResolveEventTimestamp] @ DispatchEvent env eventType @ [ProcessResolver_DequeueExited] @
        runDeferred (deferred @ [[ProcessResolver_DeleteEntry (ctx_Pid ctx)]]))"

definition handleEvent :: "HandlerEnv \<Rightarrow> RawRecord \<Rightarrow> Action list" where
  "handleEvent env raw =
     (case raw_Header raw of
        None \<Rightarrow> [Unmarshal Header, Errorf ''failed to decode event'']
      | Some eventType \<Rightarrow>
          [Unmarshal Header, CountEvent eventType] @
          (if eventType = MountReleasedEventType then
             (case raw_Payload raw of
                None \<Rightarrow> [Unmarshal (Payload MountReleasedEventType),
                           Errorf ''failed to decode mount released event'']
              | Some d \<Rightarrow>
                  [Unmarshal (Payload MountReleasedEventType),
                   DentryResolver_DelCacheEntries (d_MountID d)] @
                  (if IsOverlayFS env (d_MountID d)
                   then [InodeDiscarders_setRevision (d_MountID d) (d_DiscarderRevision d)] else []) @
                  [MountResolver_Delete (d_MountID d)] @
                  (if MountResolver_Delete_fails env (d_MountID d)
                   then [Warnf ''failed to delete mount point %d from cache''] else []))
           else if eventType = InvalidateDentryEventType then
             (case raw_Payload raw of
                None \<Rightarrow> [Unmarshal (Payload InvalidateDentryEventType),
                           Errorf ''failed to decode invalidate dentry event'']
              | Some d \<Rightarrow>
                  [Unmarshal (Payload InvalidateDentryEventType)] @
                  invalidateDentry (d_MountID d) (d_Inode d))
           else if eventType = ArgsEnvsEventType then
             (case raw_Payload raw of
                None \<Rightarrow> [Unmarshal (Payload ArgsEnvsEventType),
                           Errorf ''failed to decode args envs event'']
              | Some d \<Rightarrow> [Unmarshal (Payload ArgsEnvsEventType), ProcessResolver_UpdateArgsEnvs])
           else
             (case raw_Contexts raw of
                None \<Rightarrow> [Unmarshal Contexts, Errorf ''failed to decode event `%s`'']
              | Some ctx \<Rightarrow>
                  [Unmarshal Contexts] @
                  (case switchEventType env eventType ctx raw of
                     Returned acts \<Rightarrow> acts
                   | Continued acts deferred \<Rightarrow>
                       acts @ resolveAndDispatch env eventType ctx deferred))))"

subsection \<open>The probe: flushing the discarders\<close>

text \<open>
  The state \<open>FlushDiscarders\<close> works on: the atomic flag of the probe, the value
  stored under key 0 of the kernel map \<open>flushing_discarders\<close>, the two discarder
  tables (the keys in the order in which the iterators yield them), the configured
  window in seconds, the log, and the flush tasks started in the background with
  \<open>go\<close> that have not run yet. \<open>manager\<close> is the map manager: \<open>None\<close> when it
  is nil, otherwise what \<open>GetMap\<close> answers for a map name.
\<close>

datatype GetMapResult = GetMap_Error | GetMap_Missing | GetMap_Found

datatype FlushError =
    ManagerIsNull
  | GetMapFailed
  | MapNotFound
  | FailedToSetFlag
  | AlreadyFlushingDiscarders

record FlushTask =
  task_Inodes :: "(u32 \<times> u64) list"
  task_Pids :: "u32 list"
  task_Count :: int
  task_Delay :: int

record Probe =
  manager :: "(string \<Rightarrow> GetMapResult) option"
  flushingDiscarders :: i64
  flushing_discarders_map :: u32
  inodeDiscarders :: "(u32 \<times> u64) list"
  pidDiscarders :: "u32 list"
  FlushDiscarderWindow :: int
  probe_log :: "Action list"
  background :: "FlushTask list"

text \<open>
  What the kernel maps answer. The table operations \<open>expireInodeDiscarder\<close> and
  \<open>pidDiscarders.Delete\<close> are not among the sources.
  Modelled from the spec: a flush deletes the discarders it enumerated, and a failure
  for one key is logged and not retried; so an operation that succeeds removes its
  key from the table and one that fails leaves the table as it is.
\<close>

record FlushEnv =
  Put_set_fails :: bool
  Put_reset_fails :: bool
  expireInodeDiscarder_fails :: "u32 \<times> u64 \<Rightarrow> bool"
  pidDiscarders_Delete_fails :: "u32 \<Rightarrow> bool"

definition Probe_Map :: "Probe \<Rightarrow> string \<Rightarrow> FlushError + unit" where
  "Probe_Map p name =
     (case manager p of
        None \<Rightarrow> Inl ManagerIsNull
      | Some getMap \<Rightarrow>
          (case getMap name of
             GetMap_Error \<Rightarrow> Inl GetMapFailed
           | GetMap_Missing \<Rightarrow> Inl MapNotFound
           | GetMap_Found \<Rightarrow> Inr ()))"

definition logp :: "Action \<Rightarrow> Probe \<Rightarrow> Probe" where
  "logp a p = p\<lparr>probe_log := probe_log p @ [a]\<rparr>"

definition unfreezeDiscarders :: "FlushEnv \<Rightarrow> Probe \<Rightarrow> Probe" where
  "unfreezeDiscarders env p =
     (let p1 = p\<lparr>flushingDiscarders := 0\<rparr>;
          p2 = (if Put_reset_fails env then logp (Errorf ''Failed to reset flush_discarders flag'') p1
                else p1\<lparr>flushing_discarders_map := 0\<rparr>)
      in logp (Debugf ''Unfreezing discarders'') p2)"

text \<open>Go's integer division truncates towards zero.\<close>

definition go_div :: "int \<Rightarrow> int \<Rightarrow> int" where
  "go_div a b = sgn a * sgn b * (\<bar>a\<bar> div \<bar>b\<bar>)"

text \<open>
  The closure \<open>flushDiscarders\<close>: its two loops, threading the counter
  \<open>discarderCount\<close> that the closure captures.
\<close>

fun flushInodes :: "FlushEnv \<Rightarrow> int \<Rightarrow> (u32 \<times> u64) list \<Rightarrow> int \<times> Probe \<Rightarrow> int \<times> Probe" where
  "flushInodes env delay [] (discarderCount, p) = (discarderCount, p)"
| "flushInodes env delay (inode # rest) (discarderCount, p) =
     (let p1 = (if expireInodeDiscarder_fails env inode
                then logp (Tracef ''Failed to flush discarder for inode %d'') p
                else p\<lparr>inodeDiscarders := removeAll inode (inodeDiscarders p)\<rparr>);
          discarderCount' = discarderCount - 1;
          p2 = (if discarderCount' > 0 then logp (Sleep delay) p1 else p1)
      in flushInodes env delay rest (discarderCount', p2))"

fun flushPids :: "FlushEnv \<Rightarrow> int \<Rightarrow> u32 list \<Rightarrow> int \<times> Probe \<Rightarrow> int \<times> Probe" where
  "flushPids env delay [] (discarderCount, p) = (discarderCount, p)"
| "flushPids env delay (pid # rest) (discarderCount, p) =
     (let p1 = (if pidDiscarders_Delete_fails env pid
                then logp (Tracef ''Failed to flush discarder for pid %d'') p
                else p\<lparr>pidDiscarders := removeAll pid (pidDiscarders p)\<rparr>);
          discarderCount' = discarderCount - 1;
          p2 = (if discarderCount' > 0 then logp (Sleep delay) p1 else p1)
      in flushPids env delay rest (discarderCount', p2))"

definition flushDiscarders :: "FlushEnv \<Rightarrow> FlushTask \<Rightarrow> Probe \<Rightarrow> Probe" where
  "flushDiscarders env task p =
     (let p0 = logp (Debugf ''Flushing discarders'') p;
          (count1, p1) = flushInodes env (task_Delay task) (task_Inodes task) (task_Count task, p0);
          (count2, p2) = flushPids env (task_Delay task) (task_Pids task) (count1, p1)
      in p2)"

text \<open>
  \<open>FlushDiscarders\<close>. The deferred \<open>unfreezeDiscarders\<close> is registered before
  the compare-and-swap, so it runs on every return that follows, the one of a failed
  compare-and-swap included. With a window other than 0 the flush is started in the
  background and the function returns (and unfreezes) without waiting for it.
\<close>

definition FlushDiscarders :: "FlushEnv \<Rightarrow> Probe \<Rightarrow> FlushError option \<times> Probe" where
  "FlushDiscarders env p =
     (let p0 = logp (Debugf ''Freezing discarders'') p in
      case Probe_Map p0 ''flushing_discarders'' of
        Inl err \<Rightarrow> (Some err, p0)
      | Inr flushingMap \<Rightarrow>
          if Put_set_fails env then (Some FailedToSetFlag, p0)
          else
            let p1 = p0\<lparr>flushing_discarders_map := 1\<rparr> in
            if flushingDiscarders p1 \<noteq> 0 then
              (Some AlreadyFlushingDiscarders, unfreezeDiscarders env p1)
            else
              let p2 = p1\<lparr>flushingDiscarders := 1\<rparr>;
                  discardedInodes = inodeDiscarders p2;
                  discardedPids = pidDiscarders p2;
                  discarderCount = int (length discardedInodes) + int (length discardedPids)
              in if discarderCount = 0 then
                   (None, unfreezeDiscarders env (logp (Debugf ''No discarder found'') p2))
                 else
                   let flushWindow = 1000000000 * FlushDiscarderWindow p2;
                       delay = go_div flushWindow discarderCount;
                       task = \<lparr>task_Inodes = discardedInodes, task_Pids = discardedPids,
                                task_Count = discarderCount, task_Delay = delay\<rparr>;
                       p3 = (if FlushDiscarderWindow p2 \<noteq> 0
                             then p2\<lparr>background := background p2 @ [task]\<rparr>
                             else flushDiscarders env task p2)
                   in (None, unfreezeDiscarders env p3))"

section \<open>Verified properties\<close>

subsection \<open>Reference counting\<close>

lemma times_0: "times 0 f x = x"
  by (simp add: times_def)

lemma times_Suc: "times (Suc n) f x = f (times n f x)"
  by (simp add: times_def)

lemma Retain_times: "times n Retain pc = pc\<lparr>refCount := refCount pc + of_nat n\<rparr>"
  by (induction n) (simp_all add: times_0 times_Suc Retain_def add.assoc add.commute)

lemma unat_sub_of_nat:
  "k < unat (w :: u64) \<Longrightarrow> unat (w - of_nat k) = unat w - k"
  by (metis (no_types, lifting) le_unat_uoi nless_le unat_sub word_less_eq_iff_unsigned)

lemma Release_positive:
  assumes "1 < unat (refCount pc)"
  shows "Release pc = pc\<lparr>refCount := refCount pc - 1\<rparr>"
proof -
  have "refCount pc - 1 \<noteq> 0"
    using assms by (metis diff_add_cancel add_0 unat_1 less_irrefl)
  then have "refCount pc - 1 > 0"
    by (simp add: word_greater_zero_iff)
  then show ?thesis
    by (simp add: Release_def Let_def)
qed

lemma Release_last:
  assumes "refCount pc = 1"
  shows "Release pc = pc\<lparr>refCount := 0,
     fired := fired pc @ (if onRelease pc then [OnRelease] else []) @
              (if releaseCb pc then [ReleaseCb] else [])\<rparr>"
  using assms by (simp add: Release_def Let_def)

lemma Release_times_before:
  "k < unat (refCount pc) \<Longrightarrow> times k Release pc = pc\<lparr>refCount := refCount pc - of_nat k\<rparr>"
proof (induction k)
  case 0
  then show ?case by (simp add: times_0)
next
  case (Suc k)
  let ?q = "pc\<lparr>refCount := refCount pc - of_nat k\<rparr>"
  have k: "k < unat (refCount pc)"
    using Suc.prems by simp
  have "1 < unat (refCount ?q)"
    using Suc.prems unat_sub_of_nat [OF k] by simp
  from Release_positive [OF this] show ?case
    by (simp add: times_Suc Suc.IH [OF k] diff_diff_eq)
qed

lemma Release_times_all:
  assumes "0 < unat (refCount pc)"
  shows "times (unat (refCount pc)) Release pc = pc\<lparr>refCount := 0,
     fired := fired pc @ (if onRelease pc then [OnRelease] else []) @
              (if releaseCb pc then [ReleaseCb] else [])\<rparr>"
proof -
  obtain k where k: "unat (refCount pc) = Suc k"
    using assms by (cases "unat (refCount pc)") auto
  let ?q = "pc\<lparr>refCount := refCount pc - of_nat k\<rparr>"
  have b: "times k Release pc = ?q"
    using Release_times_before [of k pc] k by simp
  have "refCount pc = of_nat (unat (refCount pc))"
    by simp
  then have "refCount pc = of_nat (Suc k)"
    by (simp only: k)
  then have one: "refCount ?q = 1"
    by simp
  show ?thesis
    unfolding k times_Suc b using Release_last [OF one] by simp
qed

text \<open>
  Claim C2. An entry with a release callback is retained \<open>N \<ge> 1\<close> times and then
  released. The counter may already hold the references of other holders
  (\<open>refCount pc\<close> of them), whose releases come in any order among the others:
  releases carry no identity, so only their number counts. As long as the counter
  does not overflow (\<open>unat (refCount pc) + N < 2 ^ 64\<close>), no release before the last
  one fires a callback and the counter stays above zero; the last release brings the
  counter to zero and fires \<open>onRelease\<close> exactly once (followed by the release
  callback when one is set).
\<close>

theorem Retain_Release_refcount:
  assumes cb: "onRelease pc" and N: "1 \<le> N"
    and range: "unat (refCount pc) + N < 2 ^ 64"
  shows "(\<forall>k < unat (refCount pc) + N.
            fired (times k Release (times N Retain pc)) = fired pc \<and>
            refCount (times k Release (times N Retain pc)) \<noteq> 0) \<and>
         fired (times (unat (refCount pc) + N) Release (times N Retain pc)) =
            fired pc @ [OnRelease] @ (if releaseCb pc then [ReleaseCb] else []) \<and>
         refCount (times (unat (refCount pc) + N) Release (times N Retain pc)) = 0"
proof -
  let ?q = "times N Retain pc"
  have q: "?q = pc\<lparr>refCount := refCount pc + of_nat N\<rparr>"
    by (rule Retain_times)
  have "unat (refCount pc + of_nat N) = unat (refCount pc) + N"
    using range by (simp add: unat_word_ariths unat_of_nat)
  then have u: "unat (refCount ?q) = unat (refCount pc) + N"
    by (simp add: q)
  have before: "fired (times k Release ?q) = fired pc \<and> refCount (times k Release ?q) \<noteq> 0"
    if "k < unat (refCount pc) + N" for k
  proof -
    have k: "k < unat (refCount ?q)"
      using that u by simp
    have "refCount ?q - of_nat k \<noteq> 0"
      using k unat_sub_of_nat [OF k] by (metis unat_0 zero_less_diff less_irrefl)
    then show ?thesis
      using Release_times_before [OF k] by (simp add: q)
  qed
  have pos: "0 < unat (refCount ?q)"
    using u N by simp
  have "times (unat (refCount pc) + N) Release ?q = times (unat (refCount ?q)) Release ?q"
    by (simp only: u)
  also note Release_times_all [OF pos]
  finally have last: "times (unat (refCount pc) + N) Release ?q = ?q\<lparr>refCount := 0,
     fired := fired ?q @ (if onRelease ?q then [OnRelease] else []) @
              (if releaseCb ?q then [ReleaseCb] else [])\<rparr>" .
  show ?thesis
    using before cb by (simp add: last) (simp add: q)
qed

theorem Retain_Release_refcount_witness:
  "fired (times 0 Release (times 2 Retain (NewProcessCacheEntry True))) = [] \<and>
   fired (times 1 Release (times 2 Retain (NewProcessCacheEntry True))) = [] \<and>
   refCount (times 1 Release (times 2 Retain (NewProcessCacheEntry True))) \<noteq> 0 \<and>
   fired (times 2 Release (times 2 Retain (NewProcessCacheEntry True))) = [OnRelease] \<and>
   refCount (times 2 Release (times 2 Retain (NewProcessCacheEntry True))) = 0"
proof -
  have a: "onRelease (NewProcessCacheEntry True)"
    by (simp add: NewProcessCacheEntry_def)
  have b: "1 \<le> (2::nat)"
    by simp
  have u: "unat (refCount (NewProcessCacheEntry True)) + 2 = 2"
    by (simp add: NewProcessCacheEntry_def)
  have c: "unat (refCount (NewProcessCacheEntry True)) + 2 < 2 ^ 64"
    by (simp only: u) simp
  have f: "fired (NewProcessCacheEntry True) = []" "\<not> releaseCb (NewProcessCacheEntry True)"
    by (simp_all add: NewProcessCacheEntry_def)
  note r = Retain_Release_refcount [OF a b c, unfolded u]
  from r have "fired (times 0 Release (times 2 Retain (NewProcessCacheEntry True))) = []"
    using f by simp
  moreover from r have "fired (times 1 Release (times 2 Retain (NewProcessCacheEntry True))) = [] \<and>
      refCount (times 1 Release (times 2 Retain (NewProcessCacheEntry True))) \<noteq> 0"
    using f by simp
  moreover from r have "fired (times 2 Release (times 2 Retain (NewProcessCacheEntry True))) = [OnRelease] \<and>
      refCount (times 2 Release (times 2 Retain (NewProcessCacheEntry True))) = 0"
    using f by simp
  ultimately show ?thesis
    by simp
qed

text \<open>
  Claim C10, as stated, ends with "the entry can never be released afterwards". It
  can: the counter goes on counting modulo \<open>2 ^ 64\<close>. After a release at zero, two
  retains and one release bring the counter back to zero and the callback fires.
\<close>

theorem Release_at_zero_released_later:
  "refCount (NewProcessCacheEntry True) = 0 \<and>
   fired (Release (NewProcessCacheEntry True)) = [] \<and>
   fired (Release (Retain (Retain (Release (NewProcessCacheEntry True))))) = [OnRelease]"
  by (simp add: NewProcessCacheEntry_def Release_def Retain_def Let_def word_greater_zero_iff)

text \<open>
  Claim C10, amended. A release of an entry whose counter is 0 wraps the counter to
  \<open>2 ^ 64 - 1\<close> and fires neither callback in that call. The entry is not out of
  reach afterwards: the counter keeps counting modulo \<open>2 ^ 64\<close>, and the callbacks
  fire at the next release that brings it back to 0, for instance after two retains and
  one release.
\<close>

theorem Release_at_zero:
  assumes "refCount pc = 0"
  shows "refCount (Release pc) = - 1 \<and> unat (refCount (Release pc)) = 2 ^ 64 - 1 \<and>
         fired (Release pc) = fired pc \<and>
         fired (Release (Retain (Retain (Release pc)))) =
           fired pc @ (if onRelease pc then [OnRelease] else []) @
           (if releaseCb pc then [ReleaseCb] else [])"
  using assms
  by (simp add: Release_def Retain_def Let_def word_greater_zero_iff
      unsigned_minus_1_eq_mask mask_eq_exp_minus_1)

theorem Release_at_zero_witness:
  "refCount (Release (NewProcessCacheEntry True)) = - 1 \<and>
   unat (refCount (Release (NewProcessCacheEntry True))) = 2 ^ 64 - 1 \<and>
   fired (Release (NewProcessCacheEntry True)) = [] \<and>
   fired (Release (Retain (Retain (Release (NewProcessCacheEntry True))))) = [OnRelease]"
proof -
  have z: "refCount (NewProcessCacheEntry True) = 0"
    by (simp add: NewProcessCacheEntry_def)
  have f: "fired (NewProcessCacheEntry True) = []" "onRelease (NewProcessCacheEntry True)"
    "\<not> releaseCb (NewProcessCacheEntry True)"
    by (simp_all add: NewProcessCacheEntry_def)
  from Release_at_zero [OF z] show ?thesis
    using f by (simp add: unsigned_minus_1_eq_mask mask_eq_exp_minus_1)
qed

end
